theory Spec2Isabelle
  imports Complex_Main
begin

section \<open>Job store and startup recovery sweep (web\_app.py)\<close>

text \<open>
  The \<open>jobs\<close> table of \<open>init_db\<close>. Columns keep their names, except \<open>id\<close>,
  \<open>output_dir\<close> and \<open>completed_at\<close>, which carry the prefix \<open>row_\<close> because the
  pipeline state has fields of the same names. TEXT columns are byte strings (SQLite stores
  UTF-8); a nullable column is an option. \<open>created_at\<close> is filled by
  \<open>datetime('now')\<close> in the fixed format \<open>YYYY-MM-DD HH:MM:SS\<close> (UTC), whose text
  order is the order of time, so it is modelled as the number of seconds since the epoch.
\<close>

record job =
  row_id :: string
  user_id :: string
  job_type :: string
  title :: string
  params :: "string option"
  status :: string
  current_stage :: string
  row_output_dir :: "string option"
  error :: "string option"
  created_at :: int
  row_completed_at :: "string option"

datatype db_error = OperationalError | IntegrityError

text \<open>
  The database file: its rows, and whether a connection or statement on it fails
  (locked beyond the busy timeout, unreadable file). \<open>get_db\<close> raises in that case.
\<close>

record database =
  unavailable :: bool
  rows :: "job list"

definition get_db :: "database \<Rightarrow> db_error + job list" where
  "get_db db = (if unavailable db then Inl OperationalError else Inr (rows db))"

text \<open>The error text written by the sweep; the dash is U+2014, three bytes in UTF-8.\<close>

definition timed_out_message :: string where
  "timed_out_message =
     ''Timed out '' @ [CHR 0xE2, CHR 0x80, CHR 0x94] @ '' exceeded maximum pipeline duration''"

text \<open>\<open>datetime('now', '-75 minutes')\<close>, in seconds.\<close>

definition stale_threshold :: int where
  "stale_threshold = 75 * 60"

definition stale_cutoff :: "int \<Rightarrow> int" where
  "stale_cutoff now = now - stale_threshold"

text \<open>
  \<open>SELECT id, title FROM jobs WHERE status IN ('running','queued')
   AND created_at < datetime('now', '-75 minutes')\<close>
\<close>

definition is_stale :: "int \<Rightarrow> job \<Rightarrow> bool" where
  "is_stale now j \<longleftrightarrow>
     status j \<in> set [''running'', ''queued''] \<and> created_at j < stale_cutoff now"

definition select_stale :: "int \<Rightarrow> job list \<Rightarrow> (string \<times> string) list" where
  "select_stale now js = map (\<lambda>j. (row_id j, title j)) (filter (is_stale now) js)"

text \<open>\<open>UPDATE jobs SET status='failed', error='Timed out ...' WHERE id=?\<close>\<close>

definition mark_failed :: "job \<Rightarrow> job" where
  "mark_failed j = j\<lparr>status := ''failed'', error := Some timed_out_message\<rparr>"

definition update_failed :: "string \<Rightarrow> job list \<Rightarrow> job list" where
  "update_failed i js = map (\<lambda>j. if row_id j = i then mark_failed j else j) js"

text \<open>
  \<open>_recover_stale_jobs\<close>: select the stale rows, update each by id, commit. Any
  exception is swallowed by \<open>except Exception: pass\<close> and nothing is committed, so the
  table is then left as it was. \<open>now\<close> is the clock at the time of the SELECT.
\<close>

definition recover_stale_jobs :: "int \<Rightarrow> database \<Rightarrow> database" where
  "recover_stale_jobs now db =
     (case get_db db of
        Inl e \<Rightarrow> db
      | Inr js \<Rightarrow>
          db\<lparr>rows := foldl (\<lambda>acc (i, t). update_failed i acc) js (select_stale now js)\<rparr>)"



section \<open>Stage timeouts (flows/pipeline.py)\<close>

text \<open>
  \<open>STAGE_TIMEOUTS\<close> is built at import time from the environment, each entry
  \<open>int(os.getenv(KEY, default))\<close>. The environment is a map from variable names to
  the integers their values parse to; the dictionary is an association list in the order
  of the source.
\<close>

definition getenv_int :: "(string \<rightharpoonup> int) \<Rightarrow> string \<Rightarrow> int \<Rightarrow> int" where
  "getenv_int env k d = (case env k of None \<Rightarrow> d | Some v \<Rightarrow> v)"

definition STAGE_TIMEOUTS :: "(string \<rightharpoonup> int) \<Rightarrow> (string \<times> int) list" where
  "STAGE_TIMEOUTS env =
     [(''research'', getenv_int env ''TIMEOUT_RESEARCH'' 900),
      (''design'', getenv_int env ''TIMEOUT_DESIGN'' 900),
      (''mood_board'', getenv_int env ''TIMEOUT_MOOD'' 600),
      (''production'', getenv_int env ''TIMEOUT_PRODUCTION'' 1800),
      (''recon'', getenv_int env ''TIMEOUT_RECON'' 600)]"

text \<open>\<open>STAGE_TIMEOUTS.get(stage_name, 1200)\<close>\<close>

definition stage_timeout :: "(string \<times> int) list \<Rightarrow> string \<Rightarrow> int" where
  "stage_timeout tm stage_name = (case map_of tm stage_name of None \<Rightarrow> 1200 | Some t \<Rightarrow> t)"

section \<open>The stage invocation envelope (flows/pipeline.py)\<close>

text \<open>
  The work unit is \<open>crew.kickoff()\<close>. It runs on a thread of its own, where it applies
  one mutation after another to the state it shares with the caller (files on disk, task
  outputs, memory), each after some seconds of work, and then ends: it returns a value
  (\<open>None\<close> is Python's \<open>None\<close>), raises an instance of \<open>Exception\<close>, raises some
  other \<open>BaseException\<close> such as \<open>SystemExit\<close> (which \<open>except Exception\<close> in
  \<open>_run\<close> does not catch), or never ends.
\<close>

datatype ('e, 'v) ending =
    Returns "'v option"
  | Raises 'e
  | Escapes 'e
  | Hangs

record ('s, 'e, 'v) crew =
  steps :: "(nat \<times> ('s \<Rightarrow> 's)) list"
  ending :: "('e, 'v) ending"

text \<open>
  The thread started by \<open>run_crew_with_timeout\<close>, with the two holders its target
  \<open>_run\<close> writes: the work still ahead of it, and whether it is alive.
\<close>

record ('s, 'e, 'v) thread =
  pending :: "(nat \<times> ('s \<Rightarrow> 's)) list"
  finish :: "('e, 'v) ending"
  is_alive :: bool
  result_holder :: "'v option"
  error_holder :: "'e option"

definition new_thread :: "('s, 'e, 'v) crew \<Rightarrow> ('s, 'e, 'v) thread" where
  "new_thread c =
     \<lparr>pending = steps c, finish = ending c, is_alive = True,
      result_holder = None, error_holder = None\<rparr>"

text \<open>
  \<open>advance t st s\<close>: the steps \<open>st\<close> run for \<open>t\<close> seconds from the shared state
  \<open>s\<close>. A step of duration \<open>d\<close> applies its mutation once \<open>d\<close> seconds have been
  spent on it. The result is the work not yet done (the step in progress keeps the time it
  still needs), the shared state, and the seconds left over once all steps are done.
\<close>

fun advance ::
  "nat \<Rightarrow> (nat \<times> ('s \<Rightarrow> 's)) list \<Rightarrow> 's \<Rightarrow> (nat \<times> ('s \<Rightarrow> 's)) list \<times> 's \<times> nat" where
  "advance t [] s = ([], s, t)"
| "advance t ((d, f) # rest) s =
     (if d \<le> t then advance (t - d) rest (f s) else ((d - t, f) # rest, s, 0))"

text \<open>
  The thread runs for at most \<open>t\<close> seconds, which is what the caller observes across
  \<open>thread.join(timeout=t)\<close>. When the work ends within that time, \<open>_run\<close> stores the
  result or the exception and the thread dies; an exception that is not an
  \<open>Exception\<close> leaves \<open>_run\<close> and kills the thread with both holders untouched. The
  third component is the time the caller has waited.
\<close>

definition thread_run ::
  "nat \<Rightarrow> ('s, 'e, 'v) thread \<Rightarrow> 's \<Rightarrow> ('s, 'e, 'v) thread \<times> 's \<times> nat" where
  "thread_run t th s =
     (if \<not> is_alive th then (th, s, 0)
      else case advance t (pending th) s of (rest, s', left) \<Rightarrow>
        if rest \<noteq> [] then (th\<lparr>pending := rest\<rparr>, s', t)
        else (case finish th of
            Hangs \<Rightarrow> (th\<lparr>pending := []\<rparr>, s', t)
          | Returns r \<Rightarrow>
              (th\<lparr>pending := [], is_alive := False, result_holder := r\<rparr>, s', t - left)
          | Raises e \<Rightarrow>
              (th\<lparr>pending := [], is_alive := False, error_holder := Some e\<rparr>, s', t - left)
          | Escapes e \<Rightarrow> (th\<lparr>pending := [], is_alive := False\<rparr>, s', t - left)))"

text \<open>
  What \<open>run_crew_with_timeout\<close> hands back: the value returned (\<open>Inr\<close>) or the
  exception raised (\<open>Inl\<close>), the shared state as the caller finds it, the thread as it
  is left behind, and the time the call took.
\<close>

record ('s, 'e, 'v) envelope_result =
  outcome :: "'e + 'v option"
  shared :: 's
  worker :: "('s, 'e, 'v) thread"
  waited :: nat

text \<open>
  \<open>run_crew_with_timeout(crew, stage_name, console)\<close>. A negative timeout makes
  \<open>join\<close> return at once. The test \<open>if error_holder[0]\<close> is read as whether the
  holder was written: an exception object counts as true, as every instance of
  \<open>Exception\<close> does unless its class overrides \<open>__bool__\<close> or \<open>__len__\<close>. The
  messages printed to the console are left out.
\<close>

definition run_crew_with_timeout ::
  "(string \<times> int) list \<Rightarrow> ('s, 'e, 'v) crew \<Rightarrow> string \<Rightarrow> 's \<Rightarrow> ('s, 'e, 'v) envelope_result" where
  "run_crew_with_timeout tm c stage_name s =
     (let timeout = stage_timeout tm stage_name in
      case thread_run (nat timeout) (new_thread c) s of (th, s', w) \<Rightarrow>
        if is_alive th then \<lparr>outcome = Inr None, shared = s', worker = th, waited = w\<rparr>
        else (case error_holder th of
            Some e \<Rightarrow> \<lparr>outcome = Inl e, shared = s', worker = th, waited = w\<rparr>
          | None \<Rightarrow> \<lparr>outcome = Inr (result_holder th), shared = s', worker = th, waited = w\<rparr>))"

text \<open>
  The work unit seen from outside: its total running time, whether it is still running
  after \<open>t\<close> seconds, and the steps it has completed by then.
\<close>

definition duration :: "('s, 'e, 'v) crew \<Rightarrow> nat" where
  "duration c = sum_list (map fst (steps c))"

definition still_running :: "nat \<Rightarrow> ('s, 'e, 'v) crew \<Rightarrow> bool" where
  "still_running t c \<longleftrightarrow> ending c = Hangs \<or> t < duration c"

fun completed_by :: "nat \<Rightarrow> (nat \<times> ('s \<Rightarrow> 's)) list \<Rightarrow> ('s \<Rightarrow> 's) list" where
  "completed_by t [] = []"
| "completed_by t ((d, f) # rest) = (if d \<le> t then f # completed_by (t - d) rest else [])"

definition apply_all :: "('s \<Rightarrow> 's) list \<Rightarrow> 's \<Rightarrow> 's" where
  "apply_all fs s = foldl (\<lambda>a f. f a) s fs"

text \<open>
  Work units for the examples: one that writes a first note after 5 seconds and a second
  after 2000 more and then returns a report, one that hangs, one that returns \<open>None\<close> at
  once, and one that raises after 3 seconds. The shared state is the list of notes.
\<close>

definition slow_crew :: "(string list, string, string) crew" where
  "slow_crew =
     \<lparr>steps = [(5, \<lambda>s. s @ [''sweep'']), (2000, \<lambda>s. s @ [''report''])],
      ending = Returns (Some ''done'')\<rparr>"

definition hanging_crew :: "('s, 'e, 'v) crew" where
  "hanging_crew = \<lparr>steps = [], ending = Hangs\<rparr>"

definition none_crew :: "('s, 'e, 'v) crew" where
  "none_crew = \<lparr>steps = [], ending = Returns None\<rparr>"



section \<open>Python strings, paths and timestamps\<close>

text \<open>
  A Python \<open>str\<close> is a sequence of Unicode code points. \<open>ascii\<close> embeds the
  literals of the source.
\<close>

type_synonym pystr = "nat list"

definition ascii :: "string \<Rightarrow> pystr" where
  "ascii s = map of_char s"

text \<open>
  \<open>str.isalnum\<close> and \<open>str.lower\<close> are fixed here on the ASCII range; beyond it
  they follow the Unicode character database, which is a parameter: which code points
  count as alphanumeric, and what the character at a position of a string lowers to (one
  or more code points, depending on its context, as for the final sigma).
\<close>

record unicode =
  u_isalnum :: "nat \<Rightarrow> bool"
  u_lower :: "pystr \<Rightarrow> nat \<Rightarrow> pystr"

definition py_isalnum :: "unicode \<Rightarrow> nat \<Rightarrow> bool" where
  "py_isalnum U c =
     (if c < 128 then (48 \<le> c \<and> c \<le> 57) \<or> (65 \<le> c \<and> c \<le> 90) \<or> (97 \<le> c \<and> c \<le> 122)
      else u_isalnum U c)"

definition lower_at :: "unicode \<Rightarrow> pystr \<Rightarrow> nat \<Rightarrow> pystr" where
  "lower_at U s i =
     (let c = s ! i in
      if c < 128 then [if 65 \<le> c \<and> c \<le> 90 then c + 32 else c] else u_lower U s i)"

definition py_lower :: "unicode \<Rightarrow> pystr \<Rightarrow> pystr" where
  "py_lower U s = concat (map (lower_at U s) [0..<length s])"

text \<open>
  \<open>pathlib.Path\<close> on POSIX: a path is an anchor (empty, \<open>/\<close> or \<open>//\<close>) and its
  parts. Parsing splits at \<open>/\<close> and drops empty parts and \<open>.\<close>; \<open>..\<close> is kept.
\<close>

fun split_sep :: "pystr \<Rightarrow> pystr list" where
  "split_sep [] = [] # []"
| "split_sep (c # cs) =
     (if c = 47 then [] # split_sep cs
      else (case split_sep cs of [] \<Rightarrow> [c] # [] | p # ps \<Rightarrow> (c # p) # ps))"

record path =
  anchor :: pystr
  parts :: "pystr list"

definition path_anchor :: "pystr \<Rightarrow> pystr" where
  "path_anchor s =
     (if take 2 s = [47, 47] \<and> take 3 s \<noteq> [47, 47, 47] then [47, 47]
      else if take 1 s = [47] then [47] else [])"

definition Path :: "pystr \<Rightarrow> path" where
  "Path s = \<lparr>anchor = path_anchor s, parts = filter (\<lambda>p. p \<noteq> [] \<and> p \<noteq> [46]) (split_sep s)\<rparr>"

text \<open>\<open>p / seg\<close>: an absolute segment replaces the path.\<close>

definition joinpath :: "path \<Rightarrow> pystr \<Rightarrow> path" where
  "joinpath p seg =
     (if anchor (Path seg) \<noteq> [] then Path seg
      else \<lparr>anchor = anchor p, parts = parts p @ parts (Path seg)\<rparr>)"

fun join_sep :: "pystr list \<Rightarrow> pystr" where
  "join_sep [] = []"
| "join_sep [p] = p"
| "join_sep (p # q # ps) = p @ [47] @ join_sep (q # ps)"

definition path_str :: "path \<Rightarrow> pystr" where
  "path_str p = (if anchor p = [] \<and> parts p = [] then [46] else anchor p @ join_sep (parts p))"

definition parent :: "path \<Rightarrow> path" where
  "parent p = (if parts p = [] then p else p\<lparr>parts := butlast (parts p)\<rparr>)"

definition path_name :: "path \<Rightarrow> pystr" where
  "path_name p = (if parts p = [] then [] else last (parts p))"

text \<open>
  \<open>datetime.now()\<close>, and the two renderings used: \<open>strftime("%Y%m%d_%H%M%S")\<close> and
  \<open>isoformat()\<close>. Years have four digits (\<open>datetime\<close> allows 1 to 9999).
\<close>

record datetime =
  year :: nat
  month :: nat
  day :: nat
  hour :: nat
  minute :: nat
  second :: nat
  microsecond :: nat

definition digit :: "nat \<Rightarrow> nat" where
  "digit n = 48 + n mod 10"

definition digits2 :: "nat \<Rightarrow> pystr" where
  "digits2 n = [digit (n div 10), digit n]"

definition digits4 :: "nat \<Rightarrow> pystr" where
  "digits4 n = [digit (n div 1000), digit (n div 100), digit (n div 10), digit n]"

definition digits6 :: "nat \<Rightarrow> pystr" where
  "digits6 n = [digit (n div 100000), digit (n div 10000), digit (n div 1000),
                digit (n div 100), digit (n div 10), digit n]"

definition strftime_slug :: "datetime \<Rightarrow> pystr" where
  "strftime_slug d =
     digits4 (year d) @ digits2 (month d) @ digits2 (day d) @ [95] @
     digits2 (hour d) @ digits2 (minute d) @ digits2 (second d)"

definition isoformat :: "datetime \<Rightarrow> pystr" where
  "isoformat d =
     digits4 (year d) @ [45] @ digits2 (month d) @ [45] @ digits2 (day d) @ [84] @
     digits2 (hour d) @ [58] @ digits2 (minute d) @ [58] @ digits2 (second d) @
     (if microsecond d = 0 then [] else [46] @ digits6 (microsecond d))"

text \<open>
  The slug of \<open>initialize\<close>:
  \<open>"".join(c if c.isalnum() else "_" for c in theme.lower())[:40]\<close>, then
  \<open>f"{slug}_{ts}"\<close>, and the output directory
  \<open>str(Path(os.getenv("OUTPUT_DIR", "./output")) / game_slug)\<close>.
\<close>

definition make_slug :: "unicode \<Rightarrow> pystr \<Rightarrow> pystr" where
  "make_slug U theme_text =
     take 40 (map (\<lambda>c. if py_isalnum U c then c else 95) (py_lower U theme_text))"

definition make_game_slug :: "unicode \<Rightarrow> pystr \<Rightarrow> datetime \<Rightarrow> pystr" where
  "make_game_slug U theme_text d = make_slug U theme_text @ [95] @ strftime_slug d"

definition getenv_str :: "(string \<rightharpoonup> pystr) \<Rightarrow> string \<Rightarrow> pystr \<Rightarrow> pystr" where
  "getenv_str env k d = (case env k of None \<Rightarrow> d | Some v \<Rightarrow> v)"

definition make_output_dir :: "(string \<rightharpoonup> pystr) \<Rightarrow> pystr \<Rightarrow> pystr" where
  "make_output_dir env slug =
     path_str (joinpath (Path (getenv_str env ''OUTPUT_DIR'' (ascii ''./output''))) slug)"

definition path_wf :: "path \<Rightarrow> bool" where
  "path_wf p \<longleftrightarrow>
     anchor p \<in> set ([] # [47] # [47, 47] # []) \<and>
     list_all (\<lambda>q. q \<noteq> [] \<and> q \<noteq> [46] \<and> 47 \<notin> set q) (parts p)"

section \<open>Pipeline state (flows/pipeline.py)\<close>

text \<open>
  Documents (\<open>dict\<close> values, parsed JSON, the manifest) are JSON values; the keys of
  an object are kept in order. A \<open>float\<close> is carried as a real number and never
  computed with.
\<close>

datatype json =
    JNull
  | JBool bool
  | JInt int
  | JFloat real
  | JStr pystr
  | JList "json list"
  | JObj "(pystr \<times> json) list"


fun alist_set :: "'k \<Rightarrow> 'v \<Rightarrow> ('k \<times> 'v) list \<Rightarrow> ('k \<times> 'v) list" where
  "alist_set k v [] = [(k, v)]"
| "alist_set k v ((k', v') # kvs) =
     (if k' = k then (k, v) # kvs else (k', v') # alist_set k v kvs)"




text \<open>
  \<open>GameIdeaInput\<close> (models/schemas.py): the fields the flow itself reads, and the
  whole of it as \<open>model_dump()\<close> renders it.
\<close>

record GameIdeaInput =
  theme :: pystr
  target_markets :: "pystr list"
  art_style :: pystr
  model_dump :: json

record PipelineState =
  job_id :: pystr
  game_idea :: "GameIdeaInput option"
  game_slug :: pystr
  output_dir :: pystr
  trend_radar :: "json option"
  jurisdiction_constraints :: "json option"
  market_research :: "json option"
  research_approved :: bool
  gdd :: "json option"
  math_model :: "json option"
  optimized_rtp :: "real option"
  player_behavior :: "json option"
  design_math_approved :: bool
  mood_board :: "json option"
  mood_board_approved :: bool
  approved_mood_board_index :: int
  vision_qa_results :: "json list"
  art_assets :: "json option"
  compliance :: "json option"
  patent_scan :: "json option"
  sound_design :: "json option"
  prototype_path :: pystr
  certification_plan :: "json option"
  recon_data :: "json option"
  total_tokens_used :: json
  total_images_generated :: int
  estimated_cost_usd :: json
  errors :: "pystr list"
  hitl_approvals :: "(pystr \<times> bool) list"
  started_at :: "pystr option"
  completed_at :: "pystr option"
  pdf_files :: "pystr list"

text \<open>The defaults of the class, with the two fields the caller fills in.\<close>

definition initial_state :: "pystr \<Rightarrow> GameIdeaInput \<Rightarrow> PipelineState" where
  "initial_state j idea =
     \<lparr>job_id = j, game_idea = Some idea, game_slug = [], output_dir = [],
      trend_radar = None, jurisdiction_constraints = None, market_research = None,
      research_approved = False, gdd = None, math_model = None, optimized_rtp = None,
      player_behavior = None, design_math_approved = False, mood_board = None,
      mood_board_approved = False, approved_mood_board_index = 0, vision_qa_results = [],
      art_assets = None, compliance = None, patent_scan = None, sound_design = None,
      prototype_path = [], certification_plan = None, recon_data = None,
      total_tokens_used = JInt 0, total_images_generated = 0, estimated_cost_usd = JFloat 0,
      errors = [], hitl_approvals = [], started_at = None, completed_at = None,
      pdf_files = []\<rparr>"

section \<open>The checkpoint gate (flows/pipeline.py)\<close>

text \<open>
  What \<open>hitl_checkpoint\<close> depends on outside the state: \<open>PipelineConfig.HITL_ENABLED\<close>;
  the remote channel \<open>web_hitl_checkpoint\<close> (tools/web\_hitl.py), which for a job and a
  checkpoint either raises, as does anything else inside the \<open>try\<close>, or blocks until it
  returns \<open>(approved, feedback)\<close>; and the terminal, where \<open>Confirm.ask\<close> and
  \<open>Prompt.ask\<close> block until the operator answers.
\<close>

datatype web_reply = WebRaises | WebDecision bool "pystr option"

record hitl_env =
  HITL_ENABLED :: bool
  unicode_db :: unicode
  web_hitl_checkpoint :: "pystr \<Rightarrow> pystr \<Rightarrow> web_reply"
  confirm_ask :: "pystr \<Rightarrow> bool"
  prompt_ask :: "pystr \<Rightarrow> pystr"

text \<open>
  The effects of a call, in the order the statements run: console output, the blocking
  calls, and the two kinds of write to the state.
\<close>

datatype effect =
    ConsolePrint
  | WebWait pystr
  | ConfirmAsk pystr
  | PromptAsk pystr
  | SetApproval pystr bool
  | AppendError pystr

record hitl_result =
  approved :: bool
  state_after :: PipelineState
  effects :: "effect list"

definition blocking :: "effect \<Rightarrow> bool" where
  "blocking e = (case e of WebWait n \<Rightarrow> True | ConfirmAsk n \<Rightarrow> True | PromptAsk n \<Rightarrow> True
                 | _ \<Rightarrow> False)"

text \<open>\<open>state.hitl_approvals[name] = value\<close>\<close>

definition set_approval :: "pystr \<Rightarrow> bool \<Rightarrow> PipelineState \<Rightarrow> PipelineState" where
  "set_approval name v st = st\<lparr>hitl_approvals := alist_set name v (hitl_approvals st)\<rparr>"

text \<open>\<open>f"HITL rejection at {name}: {feedback}"\<close>\<close>

definition rejection_message :: "pystr \<Rightarrow> pystr \<Rightarrow> pystr" where
  "rejection_message name fb = ascii ''HITL rejection at '' @ name @ ascii '': '' @ fb"

definition append_error :: "pystr \<Rightarrow> PipelineState \<Rightarrow> PipelineState" where
  "append_error msg st = st\<lparr>errors := errors st @ [msg]\<rparr>"

text \<open>The CLI fallback at the end of \<open>hitl_checkpoint\<close>.\<close>

definition cli_checkpoint :: "hitl_env \<Rightarrow> pystr \<Rightarrow> PipelineState \<Rightarrow> hitl_result" where
  "cli_checkpoint E name st =
     (let ok = confirm_ask E name; st1 = set_approval name ok st in
      if ok then
        \<lparr>approved = True, state_after = st1,
         effects = [ConsolePrint, ConfirmAsk name, SetApproval name True]\<rparr>
      else
        (let fb = prompt_ask E name in
         if py_lower (unicode_db E) fb \<noteq> ascii ''skip'' then
           \<lparr>approved = False, state_after = append_error (rejection_message name fb) st1,
            effects = [ConsolePrint, ConfirmAsk name, SetApproval name False, PromptAsk name,
                       AppendError (rejection_message name fb)]\<rparr>
         else
           \<lparr>approved = False, state_after = st1,
            effects = [ConsolePrint, ConfirmAsk name, SetApproval name False, PromptAsk name]\<rparr>))"

text \<open>
  \<open>hitl_checkpoint(name, summary, state, auto)\<close>. The summary is only shown. A
  feedback value is true when it is a non-empty string.
\<close>

definition hitl_checkpoint ::
  "hitl_env \<Rightarrow> pystr \<Rightarrow> pystr \<Rightarrow> PipelineState \<Rightarrow> bool \<Rightarrow> hitl_result" where
  "hitl_checkpoint E name summary st auto =
     (if auto \<or> \<not> HITL_ENABLED E then
        \<lparr>approved = True, state_after = set_approval name True st,
         effects = [ConsolePrint, SetApproval name True]\<rparr>
      else if job_id st \<noteq> [] then
        (case web_hitl_checkpoint E (job_id st) name of
           WebDecision ok feedback \<Rightarrow>
             (case feedback of
                Some fb \<Rightarrow>
                  if \<not> ok \<and> fb \<noteq> [] then
                    \<lparr>approved = ok,
                     state_after = append_error (rejection_message name fb) (set_approval name ok st),
                     effects = [WebWait name, SetApproval name ok,
                                AppendError (rejection_message name fb)]\<rparr>
                  else
                    \<lparr>approved = ok, state_after = set_approval name ok st,
                     effects = [WebWait name, SetApproval name ok]\<rparr>
              | None \<Rightarrow>
                  \<lparr>approved = ok, state_after = set_approval name ok st,
                   effects = [WebWait name, SetApproval name ok]\<rparr>)
         | WebRaises \<Rightarrow>
             (let r = cli_checkpoint E name st in
              r\<lparr>effects := [WebWait name, ConsolePrint] @ effects r\<rparr>))
      else cli_checkpoint E name st)"

section \<open>The world of a run\<close>

text \<open>
  What the work units and the stages share outside the pipeline state: the files on disk
  (path, in the form \<open>str(Path(...))\<close> renders it, and text), the directories made,
  and the \<open>output\<close> of the tasks of the crews (by task name). A work unit acts on this
  store only; the pipeline state is not passed to it.
\<close>

record store =
  files :: "(pystr \<times> pystr) list"
  dirs :: "pystr list"
  task_output :: "(string \<times> pystr) list"

datatype pyexc =
    AttributeError
  | KeyError string
  | TypeError
  | OSError pystr
  | WorkError pystr

text \<open>
  The world of one run: the pipeline state, the store, the \<open>current_stage\<close> column of
  the job's row as this run last wrote it, and the number of clock readings so far.
\<close>

record world =
  pstate :: PipelineState
  disk :: store
  stage_label :: "pystr option"
  ticks :: nat

text \<open>
  The collaborators of the flow, none of which is in the source tree: the process
  environment, the clock, the database, the crews the stages build from the state (by
  stage name), the tools called directly, the report generator, the cost tracker and the
  JSON codec. A tool that raises is \<open>None\<close>.
\<close>

datatype pdf_outcome = PdfRaises pystr | PdfReturns "pystr list" "(pystr \<times> pystr) list"

record flow_env =
  auto_mode :: bool
  hitl :: hitl_env
  environ_int :: "string \<rightharpoonup> int"
  environ :: "string \<rightharpoonup> pystr"
  clock :: "nat \<Rightarrow> datetime"
  db_update_ok :: bool
  unwritable :: "pystr \<Rightarrow> bool"
  json_dumps :: "json \<Rightarrow> pystr"
  json_loads :: "pystr \<Rightarrow> json option"
  crew_of :: "string \<Rightarrow> PipelineState \<Rightarrow> (store, pyexc, pystr) crew"
  reviewer_available :: bool
  trend_radar_tool :: "GameIdeaInput \<Rightarrow> json option"
  jurisdiction_tool :: "GameIdeaInput \<Rightarrow> json option"
  knowledge_base_search :: "GameIdeaInput \<Rightarrow> json option"
  patent_tool :: "GameIdeaInput \<Rightarrow> json option"
  recon_search :: "pystr \<Rightarrow> json option"
  sound_design_full :: "store \<Rightarrow> (json \<times> store) option"
  generate_brief :: "store \<Rightarrow> store option"
  prototype_tool :: "PipelineState \<Rightarrow> store \<Rightarrow> (json \<times> store) option"
  pdf_generator :: "PipelineState \<Rightarrow> store \<Rightarrow> pdf_outcome"
  pdf_block_edits ::
    "PipelineState \<Rightarrow> store \<Rightarrow> json option \<times> json option \<times> json option \<times> json option"
  cost_summary :: json
  llm_heavy :: pystr
  llm_light :: pystr

text \<open>
  \<open>_update_stage_db(job_id, stage)\<close>: nothing without a job id; otherwise one UPDATE of
  \<open>current_stage\<close>, whose failure is swallowed.
\<close>

definition update_stage_db :: "flow_env \<Rightarrow> string \<Rightarrow> world \<Rightarrow> world" where
  "update_stage_db E stage w =
     (if job_id (pstate w) = [] then w
      else if db_update_ok E then w\<lparr>stage_label := Some (ascii stage)\<rparr> else w)"

text \<open>\<open>datetime.now()\<close>: the next reading of the clock.\<close>

definition datetime_now :: "flow_env \<Rightarrow> world \<Rightarrow> datetime \<times> world" where
  "datetime_now E w = (clock E (ticks w), w\<lparr>ticks := Suc (ticks w)\<rparr>)"

text \<open>\<open>Path(output_dir, a, b, ...)\<close> as a string.\<close>

definition subpath :: "pystr \<Rightarrow> string list \<Rightarrow> pystr" where
  "subpath od segs = path_str (foldl joinpath (Path od) (map ascii segs))"

definition file_exists :: "store \<Rightarrow> pystr \<Rightarrow> bool" where
  "file_exists d p = (map_of (files d) p \<noteq> None)"


definition write_text :: "flow_env \<Rightarrow> pystr \<Rightarrow> pystr \<Rightarrow> store \<Rightarrow> pyexc + store" where
  "write_text E p t d =
     (if unwritable E p then Inl (OSError p) else Inr (d\<lparr>files := alist_set p t (files d)\<rparr>))"

text \<open>\<open>Path(p).mkdir(parents=True, exist_ok=True)\<close>\<close>

definition mkdir :: "flow_env \<Rightarrow> pystr \<Rightarrow> store \<Rightarrow> pyexc + store" where
  "mkdir E p d =
     (if unwritable E p then Inl (OSError p)
      else Inr (if p \<in> set (dirs d) then d else d\<lparr>dirs := dirs d @ [p]\<rparr>))"

fun mkdirs :: "flow_env \<Rightarrow> pystr list \<Rightarrow> store \<Rightarrow> pyexc + store" where
  "mkdirs E [] d = Inr d"
| "mkdirs E (p # ps) d = (case mkdir E p d of Inl e \<Rightarrow> Inl e | Inr d' \<Rightarrow> mkdirs E ps d')"


definition py_str :: "pystr option \<Rightarrow> pystr" where
  "py_str r = (case r of None \<Rightarrow> ascii ''None'' | Some x \<Rightarrow> x)"







section \<open>The stages of the flow (flows/pipeline.py)\<close>

text \<open>
  Each stage takes the world and returns the world it leaves, or the exception that
  leaves it. A stage that calls the envelope goes on from the store as the envelope
  returned it; what a thread abandoned on timeout writes later is not followed. The
  prompts of the tasks and the lines printed are left out; an attribute read on a missing
  \<open>game_idea\<close> or document raises \<open>AttributeError\<close> where the source evaluates it.
\<close>

definition skeleton :: "string list" where
  "skeleton =
     [''00_preflight'', ''01_research'', ''02_design'', ''03_math'', ''04_art/mood_boards'',
      ''04_art/symbols'', ''04_art/backgrounds'', ''04_art/ui'', ''04_audio'', ''05_legal'',
      ''06_pdf'', ''07_prototype'']"

definition initialize :: "flow_env \<Rightarrow> world \<Rightarrow> pyexc + world" where
  "initialize E w0 =
     (let w = update_stage_db E ''Initializing pipeline'' w0 in
      case game_idea (pstate w) of
        None \<Rightarrow> Inl AttributeError
      | Some idea \<Rightarrow>
          (case datetime_now E w of (t1, w1) \<Rightarrow>
           case datetime_now E w1 of (t2, w2) \<Rightarrow>
             (let slug = make_game_slug (unicode_db (hitl E)) (theme idea) t2;
                  od = make_output_dir (environ E) slug;
                  st = (pstate w2)\<lparr>started_at := Some (isoformat t1), game_slug := slug,
                                   output_dir := od\<rparr>
              in case mkdirs E (map (\<lambda>sub. subpath od [sub]) skeleton) (disk w2) of
                   Inl e \<Rightarrow> Inl e
                 | Inr d \<Rightarrow> Inr (w2\<lparr>pstate := st, disk := d\<rparr>))))"









text \<open>The envelope as the stages call it, on the store of the world.\<close>

definition run_stage_crew ::
  "flow_env \<Rightarrow> string \<Rightarrow> string \<Rightarrow> world \<Rightarrow> (store, pyexc, pystr) envelope_result" where
  "run_stage_crew E crew_name stage_name w =
     run_crew_with_timeout (STAGE_TIMEOUTS (environ_int E)) (crew_of E crew_name (pstate w))
       stage_name (disk w)"


text \<open>
  \<open>_run_adversarial_review(stage, context_summary)\<close>: the whole body is inside a
  \<open>try\<close>, so it never raises; the review crew runs under the timeout of \<open>recon\<close>.
\<close>

definition run_adversarial_review :: "flow_env \<Rightarrow> string \<Rightarrow> world \<Rightarrow> world" where
  "run_adversarial_review E stage w =
     (if \<not> reviewer_available E then w
      else
        (let r = run_stage_crew E (''review_'' @ stage) ''recon'' w;
             w1 = w\<lparr>disk := shared r\<rparr>
         in case outcome r of
              Inl e \<Rightarrow> w1
            | Inr result \<Rightarrow>
                (let review_path =
                       subpath (output_dir (pstate w)) [''adversarial_review_'' @ stage @ ''.md'']
                 in if file_exists (shared r) review_path then w1
                    else (case write_text E review_path (py_str result) (shared r) of
                        Inl e \<Rightarrow> w1
                      | Inr d \<Rightarrow> w\<lparr>disk := d\<rparr>))))"























text \<open>
  The flow runs its stages in the order of their \<open>@listen\<close> chain; the first exception
  ends the run.
\<close>

definition then_do :: "'e + 'a \<Rightarrow> ('a \<Rightarrow> 'e + 'b) \<Rightarrow> 'e + 'b" where
  "then_do m f = (case m of Inl e \<Rightarrow> Inl e | Inr x \<Rightarrow> f x)"






text \<open>
  An environment for the examples: nothing set in the process environment, every path
  writable, no reviewer and no tool available, crews that return \<open>None\<close> at once, a
  generator that returns no file, and approvals asked for (auto mode off). Beyond ASCII
  no character counts as alphanumeric and none changes in lower case.
\<close>

definition ascii_only :: unicode where
  "ascii_only = \<lparr>u_isalnum = (\<lambda>c. False), u_lower = (\<lambda>s i. [s ! i])\<rparr>"

definition example_hitl :: "web_reply \<Rightarrow> (pystr \<Rightarrow> bool) \<Rightarrow> pystr \<Rightarrow> hitl_env" where
  "example_hitl web ok fb =
     \<lparr>HITL_ENABLED = True, unicode_db = ascii_only, web_hitl_checkpoint = (\<lambda>j n. web),
      confirm_ask = ok, prompt_ask = (\<lambda>n. fb)\<rparr>"

definition example_clock :: "nat \<Rightarrow> datetime" where
  "example_clock n =
     \<lparr>year = 2025, month = 1, day = 2, hour = 3, minute = 4, second = n, microsecond = 0\<rparr>"

definition example_env :: "hitl_env \<Rightarrow> flow_env" where
  "example_env H =
     \<lparr>auto_mode = False, hitl = H, environ_int = Map.empty, environ = Map.empty,
      clock = example_clock, db_update_ok = True, unwritable = (\<lambda>p. False),
      json_dumps = (\<lambda>j. case j of JObj kvs \<Rightarrow> concat (map (\<lambda>(k, v). k @ [59]) kvs) | _ \<Rightarrow> []),
      json_loads = (\<lambda>t. None),
      crew_of = (\<lambda>n st. none_crew), reviewer_available = False,
      trend_radar_tool = (\<lambda>i. None), jurisdiction_tool = (\<lambda>i. None),
      knowledge_base_search = (\<lambda>i. None), patent_tool = (\<lambda>i. None),
      recon_search = (\<lambda>m. None), sound_design_full = (\<lambda>d. None),
      generate_brief = (\<lambda>d. None), prototype_tool = (\<lambda>st d. None),
      pdf_generator = (\<lambda>st d. PdfReturns [] []),
      pdf_block_edits = (\<lambda>st d. (market_research st, math_model st, compliance st, sound_design st)),
      cost_summary = JObj [(ascii ''total_tokens'', JInt 0), (ascii ''estimated_cost_usd'', JInt 0)],
      llm_heavy = ascii ''heavy'', llm_light = ascii ''light''\<rparr>"

definition example_idea :: GameIdeaInput where
  "example_idea =
     \<lparr>theme = ascii ''Dragon/../Gold'', target_markets = [ascii ''Georgia''],
      art_style = ascii ''Cinematic realism'', model_dump = JObj [(ascii ''theme'', JStr (ascii ''Dragon/../Gold''))]\<rparr>"

definition example_world :: "pystr \<Rightarrow> world" where
  "example_world j =
     \<lparr>pstate = initial_state j example_idea,
      disk = \<lparr>files = [], dirs = [], task_output = []\<rparr>, stage_label = None, ticks = 0\<rparr>"

text \<open>
  Three operators at a terminal (no job id, so no remote channel): one who rejects every
  checkpoint and answers \<open>skip\<close> when asked for feedback, one who approves every
  checkpoint, and one who approves all but the art review, which is rejected with the
  feedback \<open>bad palette\<close>.
\<close>

definition rejecting_env :: flow_env where
  "rejecting_env = example_env (example_hitl WebRaises (\<lambda>n. False) (ascii ''skip''))"

definition approving_env :: flow_env where
  "approving_env = example_env (example_hitl WebRaises (\<lambda>n. True) [])"


definition example_slug :: pystr where
  "example_slug = ascii ''dragon____gold_20250102_030401''"

definition example_od :: pystr where
  "example_od = ascii ''output/dragon____gold_20250102_030401''"



text \<open>Concrete rows for the examples below.\<close>

definition example_job :: "string \<Rightarrow> string \<Rightarrow> int \<Rightarrow> job" where
  "example_job i st t =
     \<lparr>row_id = i, user_id = ''u1'', job_type = ''slot_pipeline'', title = ''Dragons'',
      params = None, status = st, current_stage = ''Initializing'', row_output_dir = None,
      error = None, created_at = t, row_completed_at = None\<rparr>"

definition example_db :: database where
  "example_db =
     \<lparr>unavailable = False,
      rows = [example_job ''a1'' ''running'' 0, example_job ''b2'' ''queued'' 100,
              example_job ''c3'' ''running'' 9000, example_job ''d4'' ''complete'' 0]\<rparr>"


definition in_flight_db :: database where
  "in_flight_db = \<lparr>unavailable = False, rows = [example_job ''r1'' ''running'' 0]\<rparr>"

section \<open>Properties of the recovery sweep\<close>

lemma update_failed_length [simp]: "length (update_failed i js) = length js"
  by (simp add: update_failed_def)

lemma update_failed_row_id [simp]: "map row_id (update_failed i js) = map row_id js"
  by (simp add: update_failed_def mark_failed_def)

lemma mark_failed_idem [simp]: "mark_failed (mark_failed j) = mark_failed j"
  by (simp add: mark_failed_def)

text \<open>
  The loop of updates, for any list of selected ids: a row is marked exactly when its id
  was selected.
\<close>

lemma foldl_update_failed:
  "foldl (\<lambda>acc (i, t). update_failed i acc) js sel =
     map (\<lambda>j. if row_id j \<in> fst ` set sel then mark_failed j else j) js"
proof (induction sel arbitrary: js)
  case Nil
  show ?case by (simp add: map_idI)
next
  case (Cons p sel)
  obtain i t where p: "p = (i, t)" by (cases p)
  have "foldl (\<lambda>acc (i, t). update_failed i acc) js (p # sel) =
        foldl (\<lambda>acc (i, t). update_failed i acc) (update_failed i js) sel"
    by (simp add: p)
  also have "\<dots> = map (\<lambda>j. if row_id j \<in> fst ` set sel then mark_failed j else j)
                     (update_failed i js)"
    by (rule Cons.IH)
  also have "\<dots> = map (\<lambda>j. if row_id j \<in> fst ` set (p # sel) then mark_failed j else j) js"
    by (auto simp: update_failed_def p mark_failed_def)
  finally show ?case .
qed

lemma select_stale_ids:
  "fst ` set (select_stale now js) = row_id ` {j \<in> set js. is_stale now j}"
  by (auto simp: select_stale_def image_iff)

text \<open>With a primary key, the ids selected are exactly those of the stale rows.\<close>

lemma stale_id_iff:
  assumes "distinct (map row_id js)" and "j \<in> set js"
  shows "row_id j \<in> fst ` set (select_stale now js) \<longleftrightarrow> is_stale now j"
proof
  assume "row_id j \<in> fst ` set (select_stale now js)"
  then obtain k where k: "k \<in> set js" "is_stale now k" "row_id k = row_id j"
    by (auto simp: select_stale_ids)
  from assms k(1,3) have "k = j"
    by (meson distinct_map inj_onD)
  with k(2) show "is_stale now j" by simp
next
  assume "is_stale now j"
  with assms(2) show "row_id j \<in> fst ` set (select_stale now js)"
    by (auto simp: select_stale_ids)
qed

lemma recover_stale_jobs_rows:
  assumes "\<not> unavailable db" and "distinct (map row_id (rows db))"
  shows "rows (recover_stale_jobs now db) =
           map (\<lambda>j. if is_stale now j then mark_failed j else j) (rows db)"
proof -
  have "rows (recover_stale_jobs now db) =
          map (\<lambda>j. if row_id j \<in> fst ` set (select_stale now (rows db))
                    then mark_failed j else j) (rows db)"
    using assms(1) by (simp add: recover_stale_jobs_def get_db_def foldl_update_failed)
  also have "\<dots> = map (\<lambda>j. if is_stale now j then mark_failed j else j) (rows db)"
    by (rule map_cong) (simp_all add: stale_id_iff [OF assms(2)])
  finally show ?thesis .
qed

lemma recover_stale_jobs_length:
  "length (rows (recover_stale_jobs now db)) = length (rows db)"
proof (cases "unavailable db")
  case True
  then show ?thesis by (simp add: recover_stale_jobs_def get_db_def)
next
  case False
  then show ?thesis
    by (simp add: recover_stale_jobs_def get_db_def foldl_update_failed)
qed

text \<open>
  Claim C3. One run of the startup sweep on a reachable database whose ids are a primary
  key: every row whose status is \<open>running\<close> or \<open>queued\<close> and whose creation time is
  more than 75 minutes before the sweep becomes \<open>failed\<close> with the error text
  \<open>Timed out - exceeded maximum pipeline duration\<close> and is otherwise unchanged; every
  row created at or after the cutoff is left exactly as it was, and so is every row in
  another status. No row is added or removed.
\<close>

theorem recover_stale_jobs_sweep:
  assumes "\<not> unavailable db" and "distinct (map row_id (rows db))"
  shows "length (rows (recover_stale_jobs now db)) = length (rows db) \<and>
         (\<forall>i < length (rows db).
            ((status (rows db ! i) = ''running'' \<or> status (rows db ! i) = ''queued'') \<and>
             created_at (rows db ! i) < now - 75 * 60 \<longrightarrow>
               rows (recover_stale_jobs now db) ! i =
                 (rows db ! i)\<lparr>status := ''failed'', error := Some timed_out_message\<rparr>) \<and>
            (now - 75 * 60 \<le> created_at (rows db ! i) \<longrightarrow>
               rows (recover_stale_jobs now db) ! i = rows db ! i) \<and>
            (status (rows db ! i) \<noteq> ''running'' \<and> status (rows db ! i) \<noteq> ''queued'' \<longrightarrow>
               rows (recover_stale_jobs now db) ! i = rows db ! i))"
proof -
  have r: "rows (recover_stale_jobs now db) =
             map (\<lambda>j. if is_stale now j then mark_failed j else j) (rows db)"
    by (rule recover_stale_jobs_rows [OF assms])
  show ?thesis
    unfolding r
    by (simp add: is_stale_def stale_cutoff_def stale_threshold_def mark_failed_def)
qed

theorem recover_stale_jobs_sweep_witness:
  "\<not> unavailable example_db \<and> distinct (map row_id (rows example_db)) \<and>
   map status (rows (recover_stale_jobs 10000 example_db)) =
     [''failed'', ''failed'', ''running'', ''complete''] \<and>
   map error (rows (recover_stale_jobs 10000 example_db)) =
     [Some timed_out_message, Some timed_out_message, None, None]"
proof -
  have h1: "\<not> unavailable example_db"
    by (simp add: example_db_def)
  have h2: "distinct (map row_id (rows example_db))"
    by (simp add: example_db_def example_job_def)
  have len: "length (rows example_db) = 4"
    by (simp add: example_db_def)
  note t = recover_stale_jobs_sweep [OF h1 h2, of 10000]
  from t have l: "length (rows (recover_stale_jobs 10000 example_db)) = 4"
    by (simp add: len)
  from t have a0: "rows (recover_stale_jobs 10000 example_db) ! 0 =
      (rows example_db ! 0)\<lparr>status := ''failed'', error := Some timed_out_message\<rparr>"
    by (simp add: example_db_def example_job_def)
  from t have "1 < length (rows example_db) \<longrightarrow> rows (recover_stale_jobs 10000 example_db) ! 1 =
      (rows example_db ! 1)\<lparr>status := ''failed'', error := Some timed_out_message\<rparr>"
    by (simp add: example_db_def example_job_def)
  then have a1: "rows (recover_stale_jobs 10000 example_db) ! 1 =
      (rows example_db ! 1)\<lparr>status := ''failed'', error := Some timed_out_message\<rparr>"
    by (simp add: len)
  from t have "2 < length (rows example_db) \<longrightarrow>
      rows (recover_stale_jobs 10000 example_db) ! 2 = rows example_db ! 2"
    by (simp add: example_db_def example_job_def)
  then have a2: "rows (recover_stale_jobs 10000 example_db) ! 2 = rows example_db ! 2"
    by (simp add: len)
  from t have "3 < length (rows example_db) \<longrightarrow>
      rows (recover_stale_jobs 10000 example_db) ! 3 = rows example_db ! 3"
    by (simp add: example_db_def example_job_def)
  then have a3: "rows (recover_stale_jobs 10000 example_db) ! 3 = rows example_db ! 3"
    by (simp add: len)
  have "rows (recover_stale_jobs 10000 example_db) =
          [rows (recover_stale_jobs 10000 example_db) ! 0,
           rows (recover_stale_jobs 10000 example_db) ! 1,
           rows (recover_stale_jobs 10000 example_db) ! 2,
           rows (recover_stale_jobs 10000 example_db) ! 3]"
    using l by (auto simp: list_eq_iff_nth_eq less_Suc_eq numeral_eq_Suc)
  then have "rows (recover_stale_jobs 10000 example_db) =
          [(rows example_db ! 0)\<lparr>status := ''failed'', error := Some timed_out_message\<rparr>,
           (rows example_db ! 1)\<lparr>status := ''failed'', error := Some timed_out_message\<rparr>,
           rows example_db ! 2, rows example_db ! 3]"
    by (simp only: a0 a1 a2 a3)
  then show ?thesis
    using h1 h2 by (simp add: example_db_def example_job_def)
qed

text \<open>
  Claim C4. The threshold of the sweep is 75 minutes, 4500 seconds; the default stage
  timeouts add up to 4800 seconds. The threshold is therefore not larger than their sum:
  a job that has been running for 4600 seconds, less than the sum of the default stage
  timeouts, is marked \<open>failed\<close> by the sweep.
\<close>

theorem sweep_reaps_job_within_stage_budget:
  "stale_threshold = 4500 \<and>
   sum_list (map snd (STAGE_TIMEOUTS Map.empty)) = 4800 \<and>
   4600 - created_at (hd (rows in_flight_db)) < sum_list (map snd (STAGE_TIMEOUTS Map.empty)) \<and>
   status (hd (rows in_flight_db)) = ''running'' \<and>
   status (hd (rows (recover_stale_jobs 4600 in_flight_db))) = ''failed''"
  by (simp add: stale_threshold_def STAGE_TIMEOUTS_def getenv_int_def in_flight_db_def
      example_job_def recover_stale_jobs_def get_db_def select_stale_def is_stale_def
      stale_cutoff_def update_failed_def mark_failed_def)




section \<open>Properties of the envelope\<close>

lemma advance_pending: "fst (advance t st s) \<noteq> [] \<longleftrightarrow> t < sum_list (map fst st)"
  by (induction t st s rule: advance.induct) auto

lemma advance_shared: "fst (snd (advance t st s)) = apply_all (completed_by t st) s"
  by (induction t st s rule: advance.induct) (auto simp: apply_all_def)

lemma advance_left: "snd (snd (advance t st s)) \<le> t"
  by (induction t st s rule: advance.induct) (auto intro: le_trans)


text \<open>Running for \<open>a\<close> seconds and then for \<open>b\<close> more is running for \<open>a + b\<close>.\<close>

lemma advance_add:
  "fst (advance b (fst (advance a st s)) (fst (snd (advance a st s)))) =
     fst (advance (a + b) st s) \<and>
   fst (snd (advance b (fst (advance a st s)) (fst (snd (advance a st s))))) =
     fst (snd (advance (a + b) st s))"
proof (induction a st s rule: advance.induct)
  case (1 t s)
  show ?case by simp
next
  case (2 t d f rest s)
  show ?case
  proof (cases "d \<le> t")
    case True
    have e1: "advance (t + b) ((d, f) # rest) s = advance (t + b - d) rest (f s)"
      using True by simp
    have e2: "t + b - d = t - d + b"
      using True by arith
    have e3: "advance t ((d, f) # rest) s = advance (t - d) rest (f s)"
      using True by simp
    show ?thesis
      unfolding e1 e2 e3 by (rule "2" [OF True])
  next
    case gt: False
    have e3: "advance t ((d, f) # rest) s = ((d - t, f) # rest, s, 0)"
      using gt by simp
    show ?thesis
    proof (cases "d \<le> t + b")
      case True
      have "d - t \<le> b" and "b - (d - t) = t + b - d"
        using True gt by arith+
      then show ?thesis
        using True gt by (simp add: e3)
    next
      case nle: False
      have "\<not> d - t \<le> b" and "d - t - b = d - (t + b)"
        using nle by arith+
      then show ?thesis
        using nle gt by (simp add: e3)
    qed
  qed
qed


lemma thread_alive_iff:
  "is_alive (fst (thread_run t (new_thread c) s)) \<longleftrightarrow> still_running t c"
proof -
  obtain rest s' left where a: "advance t (steps c) s = (rest, s', left)"
    by (cases "advance t (steps c) s")
  have r: "rest \<noteq> [] \<longleftrightarrow> t < duration c"
    using advance_pending [of t "steps c" s] by (simp add: a duration_def)
  show ?thesis
    by (cases "ending c")
      (auto simp: thread_run_def new_thread_def a r still_running_def)
qed

lemma thread_run_alive:
  assumes "still_running t c"
  shows "thread_run t (new_thread c) s =
           ((new_thread c)\<lparr>pending := fst (advance t (steps c) s)\<rparr>,
            apply_all (completed_by t (steps c)) s, t)"
proof -
  obtain rest s' left where a: "advance t (steps c) s = (rest, s', left)"
    by (cases "advance t (steps c) s")
  have r: "rest \<noteq> [] \<longleftrightarrow> t < duration c"
    using advance_pending [of t "steps c" s] by (simp add: a duration_def)
  have s': "s' = apply_all (completed_by t (steps c)) s"
    using advance_shared [of t "steps c" s] by (simp add: a)
  show ?thesis
  proof (cases "rest = []")
    case True
    with assms r have "ending c = Hangs" by (simp add: still_running_def)
    with True show ?thesis
      by (simp add: thread_run_def new_thread_def a s')
  next
    case False
    then show ?thesis
      by (simp add: thread_run_def new_thread_def a s')
  qed
qed


lemma thread_run_resume:
  assumes "still_running a c"
  shows "fst (thread_run b (fst (thread_run a (new_thread c) s))
                (fst (snd (thread_run a (new_thread c) s)))) =
           fst (thread_run (a + b) (new_thread c) s) \<and>
         fst (snd (thread_run b (fst (thread_run a (new_thread c) s))
                (fst (snd (thread_run a (new_thread c) s))))) =
           fst (snd (thread_run (a + b) (new_thread c) s))"
proof -
  let ?A = "advance a (steps c) s"
  obtain rest s' left where ab: "advance (a + b) (steps c) s = (rest, s', left)"
    by (cases "advance (a + b) (steps c) s")
  have sh: "fst (snd ?A) = apply_all (completed_by a (steps c)) s"
    by (rule advance_shared)
  from advance_add [of b a "steps c" s]
  obtain left' where b: "advance b (fst ?A) (apply_all (completed_by a (steps c)) s) = (rest, s', left')"
    by (cases "advance b (fst ?A) (fst (snd ?A))") (simp add: ab sh)
  show ?thesis
    unfolding thread_run_alive [OF assms]
    by (cases "ending c") (simp_all add: thread_run_def new_thread_def ab b)
qed

text \<open>
  Claim C1. For every stage name, timeout table, work unit and shared state: when the work
  unit is still running once the timeout of the stage has elapsed, the call returns
  \<open>None\<close> and raises nothing; it has waited exactly the timeout; the thread is left
  alive; the shared state the caller goes on with holds exactly the mutations the work had
  completed by then; and the thread keeps all the work still ahead of it, so that letting
  it run for any further time leaves thread and shared state as if the caller had never
  stopped waiting.
\<close>

theorem run_crew_with_timeout_abandons:
  assumes "still_running (nat (stage_timeout tm stage_name)) c"
  shows "outcome (run_crew_with_timeout tm c stage_name s) = Inr None \<and>
         is_alive (worker (run_crew_with_timeout tm c stage_name s)) \<and>
         shared (run_crew_with_timeout tm c stage_name s) =
           apply_all (completed_by (nat (stage_timeout tm stage_name)) (steps c)) s \<and>
         waited (run_crew_with_timeout tm c stage_name s) = nat (stage_timeout tm stage_name) \<and>
         (\<forall>b. fst (thread_run b (worker (run_crew_with_timeout tm c stage_name s))
                    (shared (run_crew_with_timeout tm c stage_name s))) =
                fst (thread_run (nat (stage_timeout tm stage_name) + b) (new_thread c) s) \<and>
              fst (snd (thread_run b (worker (run_crew_with_timeout tm c stage_name s))
                    (shared (run_crew_with_timeout tm c stage_name s)))) =
                fst (snd (thread_run (nat (stage_timeout tm stage_name) + b) (new_thread c) s)))"
proof -
  let ?T = "nat (stage_timeout tm stage_name)"
  let ?th = "(new_thread c)\<lparr>pending := fst (advance ?T (steps c) s)\<rparr>"
  let ?s = "apply_all (completed_by ?T (steps c)) s"
  have run: "thread_run ?T (new_thread c) s = (?th, ?s, ?T)"
    by (rule thread_run_alive [OF assms])
  have res: "run_crew_with_timeout tm c stage_name s =
               \<lparr>outcome = Inr None, shared = ?s, worker = ?th, waited = ?T\<rparr>"
    unfolding run_crew_with_timeout_def Let_def run by (simp add: new_thread_def)
  have later: "fst (thread_run b ?th ?s) = fst (thread_run (?T + b) (new_thread c) s) \<and>
               fst (snd (thread_run b ?th ?s)) = fst (snd (thread_run (?T + b) (new_thread c) s))"
    for b
    using thread_run_resume [OF assms, of b s] by (simp add: run)
  show ?thesis
    unfolding res using later by (simp add: new_thread_def)
qed

theorem run_crew_with_timeout_abandons_witness:
  "still_running (nat (stage_timeout (STAGE_TIMEOUTS Map.empty) ''research'')) slow_crew \<and>
   outcome (run_crew_with_timeout (STAGE_TIMEOUTS Map.empty) slow_crew ''research'' []) = Inr None \<and>
   is_alive (worker (run_crew_with_timeout (STAGE_TIMEOUTS Map.empty) slow_crew ''research'' [])) \<and>
   shared (run_crew_with_timeout (STAGE_TIMEOUTS Map.empty) slow_crew ''research'' []) = [''sweep''] \<and>
   waited (run_crew_with_timeout (STAGE_TIMEOUTS Map.empty) slow_crew ''research'' []) = 900"
proof -
  have t: "nat (stage_timeout (STAGE_TIMEOUTS Map.empty) ''research'') = 900"
    by (simp add: stage_timeout_def STAGE_TIMEOUTS_def getenv_int_def)
  have h: "still_running (nat (stage_timeout (STAGE_TIMEOUTS Map.empty) ''research'')) slow_crew"
    unfolding t by (simp add: still_running_def duration_def slow_crew_def)
  have c: "apply_all (completed_by 900 (steps slow_crew)) [] = [''sweep'']"
    by (simp add: slow_crew_def apply_all_def)
  from run_crew_with_timeout_abandons [OF h, of "[]"] h show ?thesis
    unfolding t by (simp add: c)
qed



text \<open>
  Claim C10. For every stage name, timeout table and shared state there are two runs of the
  envelope that the caller cannot tell apart by the value returned: the work unit that
  never ends is still running when the timeout expires, the work unit that returns
  \<open>None\<close> at once completes normally, and both calls return \<open>None\<close>.
\<close>

theorem timeout_indistinguishable_from_none:
  "still_running (nat (stage_timeout tm stage_name)) (hanging_crew :: ('s, 'e, 'v) crew) \<and>
   \<not> still_running (nat (stage_timeout tm stage_name)) (none_crew :: ('s, 'e, 'v) crew) \<and>
   ending (none_crew :: ('s, 'e, 'v) crew) = Returns None \<and>
   outcome (run_crew_with_timeout tm (hanging_crew :: ('s, 'e, 'v) crew) stage_name s) = Inr None \<and>
   outcome (run_crew_with_timeout tm (none_crew :: ('s, 'e, 'v) crew) stage_name s) = Inr None \<and>
   is_alive (worker (run_crew_with_timeout tm (hanging_crew :: ('s, 'e, 'v) crew) stage_name s)) \<and>
   \<not> is_alive (worker (run_crew_with_timeout tm (none_crew :: ('s, 'e, 'v) crew) stage_name s))"
  by (simp add: still_running_def duration_def hanging_crew_def none_crew_def
      run_crew_with_timeout_def thread_run_def new_thread_def)

section \<open>Properties of the slug and of paths\<close>

lemma digit_alnum: "py_isalnum U (digit n)"
proof -
  have "n mod 10 < 10" by simp
  then show ?thesis
    unfolding py_isalnum_def digit_def by auto
qed

lemma strftime_slug_chars: "c \<in> set (strftime_slug d) \<Longrightarrow> py_isalnum U c \<or> c = 95"
  by (auto simp: strftime_slug_def digits2_def digits4_def digit_alnum)

lemma make_slug_chars: "c \<in> set (make_slug U t) \<Longrightarrow> py_isalnum U c \<or> c = 95"
  by (auto simp: make_slug_def dest!: in_set_takeD)

lemma make_slug_length: "length (make_slug U t) \<le> 40"
  by (simp add: make_slug_def)

lemma make_game_slug_chars:
  "c \<in> set (make_game_slug U t d) \<Longrightarrow> py_isalnum U c \<or> c = 95"
  using make_slug_chars [of c U t] strftime_slug_chars [of c d U]
  by (auto simp: make_game_slug_def)

lemma make_game_slug_no_special:
  "47 \<notin> set (make_game_slug U t d)" "46 \<notin> set (make_game_slug U t d)"
  "92 \<notin> set (make_game_slug U t d)" "0 \<notin> set (make_game_slug U t d)"
  using make_game_slug_chars [of 47 U t d] make_game_slug_chars [of 46 U t d]
    make_game_slug_chars [of 92 U t d] make_game_slug_chars [of 0 U t d]
  by (auto simp: py_isalnum_def)

lemma make_game_slug_nonempty: "make_game_slug U t d \<noteq> []"
  by (simp add: make_game_slug_def)

lemma split_sep_nonempty [simp]: "split_sep s \<noteq> []"
  by (induction s) (auto split: list.splits)

lemma split_sep_no_sep: "47 \<notin> set s \<Longrightarrow> split_sep s = [s]"
  by (induction s) auto

lemma split_sep_append:
  "47 \<notin> set p \<Longrightarrow> split_sep (p @ 47 # s) = p # split_sep s"
  by (induction p) auto

lemma Path_segment:
  assumes "47 \<notin> set g" "g \<noteq> []" "g \<noteq> [46]"
  shows "Path g = \<lparr>anchor = [], parts = [g]\<rparr>"
proof -
  from assms(1,2) have "hd g \<noteq> 47" by (cases g) auto
  with assms(2) have "path_anchor g = []"
    by (cases g) (auto simp: path_anchor_def)
  with assms show ?thesis
    by (simp add: Path_def split_sep_no_sep)
qed

lemma joinpath_segment:
  assumes "47 \<notin> set g" "g \<noteq> []" "g \<noteq> [46]"
  shows "joinpath p g = \<lparr>anchor = anchor p, parts = parts p @ [g]\<rparr>"
  by (simp add: joinpath_def Path_segment [OF assms])

lemma split_sep_parts: "list_all (\<lambda>q. 47 \<notin> set q) (split_sep s)"
  by (induction s) (auto split: list.splits)

lemma Path_wf: "path_wf (Path s)"
proof -
  have "list_all (\<lambda>q. q \<noteq> [] \<and> q \<noteq> [46] \<and> 47 \<notin> set q)
          (filter (\<lambda>p. p \<noteq> [] \<and> p \<noteq> [46]) (split_sep s))"
    using split_sep_parts [of s] by (auto simp: list_all_iff)
  then show ?thesis
    by (simp add: path_wf_def Path_def path_anchor_def)
qed

lemma split_join:
  "ps \<noteq> [] \<Longrightarrow> list_all (\<lambda>q. 47 \<notin> set q) ps \<Longrightarrow> split_sep (join_sep ps) = ps"
proof (induction ps rule: join_sep.induct)
  case 1
  then show ?case by simp
next
  case (2 p)
  then show ?case by (simp add: split_sep_no_sep)
next
  case (3 p q ps)
  then show ?case by (simp add: split_sep_append)
qed

lemma join_sep_hd:
  "ps \<noteq> [] \<Longrightarrow> hd ps \<noteq> [] \<Longrightarrow> join_sep ps \<noteq> [] \<and> hd (join_sep ps) = hd (hd ps)"
  by (induction ps rule: join_sep.induct) auto

lemma Path_path_str:
  assumes "path_wf p" "parts p \<noteq> []"
  shows "Path (path_str p) = p"
proof -
  let ?j = "join_sep (parts p)"
  from assms have all: "list_all (\<lambda>q. 47 \<notin> set q) (parts p)"
    and ne: "list_all (\<lambda>q. q \<noteq> [] \<and> q \<noteq> [46]) (parts p)"
    by (auto simp: path_wf_def list_all_iff)
  from assms have h: "hd (parts p) \<noteq> []" "47 \<notin> set (hd (parts p))"
    by (cases "parts p"; auto simp: path_wf_def)+
  then have hd47: "hd (hd (parts p)) \<noteq> 47" by (cases "hd (parts p)") auto
  from join_sep_hd [OF assms(2) h(1)] hd47 obtain c cs where j: "?j = c # cs" "c \<noteq> 47"
    by (cases ?j) auto
  have sp: "split_sep ?j = parts p"
    by (rule split_join [OF assms(2) all])
  have f: "filter (\<lambda>p. p \<noteq> [] \<and> p \<noteq> [46]) (parts p) = parts p"
    using ne by (simp add: list_all_iff)
  from assms(1) consider "anchor p = []" | "anchor p = [47]" | "anchor p = [47, 47]"
    by (auto simp: path_wf_def)
  then show ?thesis
  proof cases
    case 1
    have "path_anchor ?j = []"
      using j by (simp add: path_anchor_def)
    then have "Path ?j = \<lparr>anchor = [], parts = parts p\<rparr>"
      by (simp only: Path_def sp f)
    with 1 assms(2) show ?thesis by (simp add: path_str_def)
  next
    case 2
    have "split_sep ([47] @ ?j) = [] # parts p"
      using sp by simp
    moreover have "path_anchor ([47] @ ?j) = [47]"
      using j by (simp add: path_anchor_def)
    ultimately have "Path ([47] @ ?j) = \<lparr>anchor = [47], parts = parts p\<rparr>"
      using f by (simp only: Path_def filter.simps) simp
    with 2 assms(2) show ?thesis by (simp add: path_str_def)
  next
    case 3
    have "split_sep ([47, 47] @ ?j) = [] # [] # parts p"
      using sp by simp
    moreover have "path_anchor ([47, 47] @ ?j) = [47, 47]"
      using j by (simp add: path_anchor_def)
    ultimately have "Path ([47, 47] @ ?j) = \<lparr>anchor = [47, 47], parts = parts p\<rparr>"
      using f by (simp only: Path_def filter.simps) simp
    with 3 assms(2) show ?thesis by (simp add: path_str_def)
  qed
qed

section \<open>Properties of the checkpoint gate and of the gated stages\<close>

lemma map_of_alist_set: "map_of (alist_set k v kvs) = (map_of kvs)(k \<mapsto> v)"
  by (induction kvs) auto

lemma update_stage_db_pstate [simp]: "pstate (update_stage_db E l w) = pstate w"
  by (simp add: update_stage_db_def)

lemma update_stage_db_disk [simp]: "disk (update_stage_db E l w) = disk w"
  by (simp add: update_stage_db_def)

lemma update_stage_db_ticks [simp]: "ticks (update_stage_db E l w) = ticks w"
  by (simp add: update_stage_db_def)

text \<open>
  Claim C7. In auto mode, that is when the \<open>auto\<close> flag is set or
  \<open>PipelineConfig.HITL_ENABLED\<close> is off, \<open>hitl_checkpoint\<close> returns \<open>True\<close>; its
  only effects are one line on the console and one write of \<open>True\<close> under the name of
  the checkpoint in \<open>hitl_approvals\<close>, so it waits neither on the remote channel nor on
  a prompt, and the rest of the state is unchanged.
\<close>

theorem hitl_checkpoint_auto:
  assumes "auto \<or> \<not> HITL_ENABLED E"
  shows "approved (hitl_checkpoint E name summary st auto) \<and>
         state_after (hitl_checkpoint E name summary st auto) =
           st\<lparr>hitl_approvals := alist_set name True (hitl_approvals st)\<rparr> \<and>
         map_of (hitl_approvals (state_after (hitl_checkpoint E name summary st auto))) name =
           Some True \<and>
         effects (hitl_checkpoint E name summary st auto) = [ConsolePrint, SetApproval name True] \<and>
         filter blocking (effects (hitl_checkpoint E name summary st auto)) = [] \<and>
         filter (\<lambda>e. e = SetApproval name True \<or> e = SetApproval name False)
           (effects (hitl_checkpoint E name summary st auto)) = [SetApproval name True]"
  using assms
  by (auto simp: hitl_checkpoint_def set_approval_def map_of_alist_set blocking_def)




lemma run_adversarial_review_pstate [simp]:
  "pstate (run_adversarial_review E stage w) = pstate w"
  by (simp add: run_adversarial_review_def Let_def split: sum.splits)





section \<open>Properties of the flow\<close>


lemma then_do_simps [simp]: "then_do (Inr x) f = f x" "then_do (Inl e) f = Inl e"
  by (simp_all add: then_do_def)




lemma datetime_now_pstate [simp]: "pstate (snd (datetime_now E w)) = pstate w"
  by (simp add: datetime_now_def)

lemma datetime_now_disk [simp]: "disk (snd (datetime_now E w)) = disk w"
  by (simp add: datetime_now_def)



subsection \<open>A run at the terminal in which the first checkpoint is rejected\<close>

lemma mkdirs_ok:
  "\<forall>p. \<not> unwritable E p \<Longrightarrow>
     \<exists>d'. mkdirs E ps d = Inr d' \<and> files d' = files d \<and> task_output d' = task_output d"
proof (induction ps arbitrary: d)
  case Nil
  show ?case by simp
next
  case (Cons p ps)
  let ?d1 = "if p \<in> set (dirs d) then d else d\<lparr>dirs := dirs d @ [p]\<rparr>"
  have m: "mkdir E p d = Inr ?d1"
    using Cons.prems by (simp add: mkdir_def)
  from Cons.IH [OF Cons.prems, of ?d1] obtain d' where
    "mkdirs E ps ?d1 = Inr d'" "files d' = files ?d1" "task_output d' = task_output ?d1"
    by blast
  then show ?case
    by (simp add: m)
qed


lemma example_slug_eq:
  "make_game_slug ascii_only (theme example_idea) (example_clock (Suc 0)) = example_slug"
  by code_simp

lemma example_od_eq: "make_output_dir Map.empty example_slug = example_od"
  by code_simp



lemma initial_state_fields [simp]:
  "job_id (initial_state j i) = j" "game_idea (initial_state j i) = Some i"
  "research_approved (initial_state j i) = False"
  "design_math_approved (initial_state j i) = False"
  "mood_board_approved (initial_state j i) = False"
  "errors (initial_state j i) = []" "hitl_approvals (initial_state j i) = []"
  by (simp_all add: initial_state_def)

lemma initialize_Inr:
  assumes "initialize E w = Inr w'"
  shows "\<exists>idea. game_idea (pstate w) = Some idea \<and>
           pstate w' = (pstate w)
             \<lparr>started_at := Some (isoformat (clock E (ticks w))),
              game_slug := make_game_slug (unicode_db (hitl E)) (theme idea) (clock E (Suc (ticks w))),
              output_dir := make_output_dir (environ E)
                 (make_game_slug (unicode_db (hitl E)) (theme idea) (clock E (Suc (ticks w))))\<rparr>"
  using assms
  by (auto simp: initialize_def Let_def datetime_now_def split: option.splits sum.splits)

lemma initialize_ok:
  assumes "game_idea (pstate w) = Some idea" "\<forall>p. \<not> unwritable E p"
  shows "\<exists>w'. initialize E w = Inr w' \<and> files (disk w') = files (disk w) \<and>
           task_output (disk w') = task_output (disk w)"
proof -
  let ?od = "make_output_dir (environ E)
      (make_game_slug (unicode_db (hitl E)) (theme idea) (clock E (Suc (ticks w))))"
  from mkdirs_ok [OF assms(2), of "map (\<lambda>sub. subpath ?od [sub]) skeleton" "disk w"]
  obtain d' where "mkdirs E (map (\<lambda>sub. subpath ?od [sub]) skeleton) (disk w) = Inr d'"
    "files d' = files (disk w)" "task_output d' = task_output (disk w)"
    by blast
  then show ?thesis
    using assms(1) by (simp add: initialize_def Let_def datetime_now_def)
qed

lemma rejecting_fields [simp]:
  "unwritable rejecting_env = (\<lambda>p. False)" "environ rejecting_env = Map.empty"
  "clock rejecting_env = example_clock" "unicode_db (hitl rejecting_env) = ascii_only"
  "crew_of rejecting_env = (\<lambda>n st. none_crew)" "reviewer_available rejecting_env = False"
  "auto_mode rejecting_env = False" "HITL_ENABLED (hitl rejecting_env) = True"
  "confirm_ask (hitl rejecting_env) = (\<lambda>n. False)"
  "prompt_ask (hitl rejecting_env) = (\<lambda>n. ascii ''skip'')"
  "trend_radar_tool rejecting_env = (\<lambda>i. None)" "jurisdiction_tool rejecting_env = (\<lambda>i. None)"
  "knowledge_base_search rejecting_env = (\<lambda>i. None)" "patent_tool rejecting_env = (\<lambda>i. None)"
  "recon_search rejecting_env = (\<lambda>m. None)"
  by (simp_all add: rejecting_env_def example_env_def example_hitl_def)

lemma example_world_fields [simp]:
  "pstate (example_world j) = initial_state j example_idea"
  "disk (example_world j) = \<lparr>files = [], dirs = [], task_output = []\<rparr>"
  "ticks (example_world j) = 0" "stage_label (example_world j) = None"
  by (simp_all add: example_world_def)

lemma rejecting_initialize:
  "\<exists>w. initialize rejecting_env (example_world []) = Inr w \<and>
       pstate w = (initial_state [] example_idea)
          \<lparr>started_at := Some (isoformat (example_clock 0)), game_slug := example_slug,
           output_dir := example_od\<rparr> \<and>
       files (disk w) = [] \<and> task_output (disk w) = []"
proof -
  from initialize_ok [of "example_world []" example_idea rejecting_env]
  obtain w where w: "initialize rejecting_env (example_world []) = Inr w"
    "files (disk w) = []" "task_output (disk w) = []"
    by auto
  from initialize_Inr [OF w(1)]
  have "pstate w = (initial_state [] example_idea)
          \<lparr>started_at := Some (isoformat (example_clock 0)), game_slug := example_slug,
           output_dir := example_od\<rparr>"
    by (simp add: example_slug_eq example_od_eq)
  with w show ?thesis by blast
qed






subsection \<open>Auto mode and the output directory, on the example\<close>

theorem hitl_checkpoint_auto_witness:
  "approved (hitl_checkpoint (hitl rejecting_env) (ascii ''post_research'') []
      (initial_state [] example_idea) True) \<and>
   hitl_approvals (state_after (hitl_checkpoint (hitl rejecting_env) (ascii ''post_research'') []
      (initial_state [] example_idea) True)) = [(ascii ''post_research'', True)] \<and>
   effects (hitl_checkpoint (hitl rejecting_env) (ascii ''post_research'') []
      (initial_state [] example_idea) True) =
     [ConsolePrint, SetApproval (ascii ''post_research'') True]"
  using hitl_checkpoint_auto [of True "hitl rejecting_env" "ascii ''post_research''" "[]"
      "initial_state [] example_idea"]
  by simp

lemma make_slug_parts:
  fixes U t d env
  defines "g \<equiv> make_game_slug U t d"
    and "R \<equiv> Path (getenv_str env ''OUTPUT_DIR'' (ascii ''./output''))"
  shows "Path (make_output_dir env g) = \<lparr>anchor = anchor R, parts = parts R @ [g]\<rparr>"
    and "parent (Path (make_output_dir env g)) = R"
    and "path_name (Path (make_output_dir env g)) = g"
proof -
  have g: "47 \<notin> set g" "g \<noteq> []" "g \<noteq> [46]"
    using make_game_slug_no_special(1,2) [of U t d] make_game_slug_nonempty [of U t d]
    by (auto simp: g_def)
  let ?p = "\<lparr>anchor = anchor R, parts = parts R @ [g]\<rparr>"
  have j: "joinpath R g = ?p"
    by (rule joinpath_segment [OF g])
  have "path_wf R" unfolding R_def by (rule Path_wf)
  then have wf: "path_wf ?p"
    using g by (simp add: path_wf_def)
  have rt: "Path (path_str ?p) = ?p"
    by (rule Path_path_str [OF wf]) simp
  show a: "Path (make_output_dir env g) = ?p"
    by (simp add: make_output_dir_def R_def [symmetric] j rt)
  show "parent (Path (make_output_dir env g)) = R"
    by (simp add: a parent_def)
  show "path_name (Path (make_output_dir env g)) = g"
    by (simp add: a path_name_def)
qed

text \<open>
  Claim C9. For every theme string, Unicode database, clock reading and value of
  \<open>OUTPUT_DIR\<close>: the slug is the lowercased theme with every character that is not
  alphanumeric replaced by an underscore, cut to 40 characters, followed by an underscore
  and the timestamp; it holds only alphanumeric characters and underscores, so no slash,
  no backslash and no dot, and it is not empty. The output directory, read back as a
  path, is the configured output root with the slug as one further part: its parent is
  the output root and its name is the slug. \<open>initialize\<close> stores exactly this slug and
  this directory in the state.
\<close>

theorem output_dir_direct_child:
  "length (make_slug U t) \<le> 40 \<and>
   make_game_slug U t d = make_slug U t @ [95] @ strftime_slug d \<and>
   (\<forall>c \<in> set (make_game_slug U t d). py_isalnum U c \<or> c = 95) \<and>
   47 \<notin> set (make_game_slug U t d) \<and> 92 \<notin> set (make_game_slug U t d) \<and>
   make_game_slug U t d \<noteq> [] \<and> make_game_slug U t d \<noteq> ascii ''.'' \<and>
   make_game_slug U t d \<noteq> ascii ''..'' \<and>
   Path (make_output_dir env (make_game_slug U t d)) =
     \<lparr>anchor = anchor (Path (getenv_str env ''OUTPUT_DIR'' (ascii ''./output''))),
      parts = parts (Path (getenv_str env ''OUTPUT_DIR'' (ascii ''./output''))) @
              [make_game_slug U t d]\<rparr> \<and>
   parent (Path (make_output_dir env (make_game_slug U t d))) =
     Path (getenv_str env ''OUTPUT_DIR'' (ascii ''./output'')) \<and>
   path_name (Path (make_output_dir env (make_game_slug U t d))) = make_game_slug U t d \<and>
   (\<forall>E w w'. initialize E w = Inr w' \<longrightarrow>
      (\<exists>idea. game_idea (pstate w) = Some idea \<and>
         game_slug (pstate w') =
           make_game_slug (unicode_db (hitl E)) (theme idea) (clock E (Suc (ticks w))) \<and>
         output_dir (pstate w') = make_output_dir (environ E) (game_slug (pstate w')) \<and>
         parent (Path (output_dir (pstate w'))) =
           Path (getenv_str (environ E) ''OUTPUT_DIR'' (ascii ''./output'')) \<and>
         path_name (Path (output_dir (pstate w'))) = game_slug (pstate w')))"
proof -
  have dots: "make_game_slug U t d \<noteq> ascii ''.''" "make_game_slug U t d \<noteq> ascii ''..''"
    using make_game_slug_no_special(2) [of U t d] by (auto simp: ascii_def)
  have init: "\<exists>idea. game_idea (pstate w) = Some idea \<and>
         game_slug (pstate w') =
           make_game_slug (unicode_db (hitl E)) (theme idea) (clock E (Suc (ticks w))) \<and>
         output_dir (pstate w') = make_output_dir (environ E) (game_slug (pstate w')) \<and>
         parent (Path (output_dir (pstate w'))) =
           Path (getenv_str (environ E) ''OUTPUT_DIR'' (ascii ''./output'')) \<and>
         path_name (Path (output_dir (pstate w'))) = game_slug (pstate w')"
    if "initialize E w = Inr w'" for E w w'
  proof -
    from initialize_Inr [OF that] obtain idea where i: "game_idea (pstate w) = Some idea"
      "pstate w' = (pstate w)
             \<lparr>started_at := Some (isoformat (clock E (ticks w))),
              game_slug := make_game_slug (unicode_db (hitl E)) (theme idea) (clock E (Suc (ticks w))),
              output_dir := make_output_dir (environ E)
                 (make_game_slug (unicode_db (hitl E)) (theme idea) (clock E (Suc (ticks w))))\<rparr>"
      by blast
    show ?thesis
      using i(1) by (simp add: i(2) make_slug_parts parent_def path_name_def)
  qed
  show ?thesis
    using make_slug_length [of U t] make_game_slug_chars [of _ U t d]
      make_game_slug_no_special(1,3) [of U t d] make_game_slug_nonempty [of U t d]
      dots make_slug_parts [of env U t d] init
    by (auto simp: make_game_slug_def)
qed

theorem output_dir_direct_child_witness:
  "47 \<notin> set example_slug \<and>
   make_game_slug ascii_only (ascii ''Dragon/../Gold'') (example_clock (Suc 0)) = example_slug \<and>
   game_slug (pstate (projr (initialize rejecting_env (example_world [])))) = example_slug \<and>
   output_dir (pstate (projr (initialize rejecting_env (example_world [])))) = example_od \<and>
   parent (Path example_od) = Path (ascii ''./output'') \<and>
   path_name (Path example_od) = example_slug"
proof -
  note t = output_dir_direct_child [of ascii_only "theme example_idea" "example_clock (Suc 0)" Map.empty]
  have th: "theme example_idea = ascii ''Dragon/../Gold''"
    by (simp add: example_idea_def)
  from rejecting_initialize obtain w where w: "initialize rejecting_env (example_world []) = Inr w"
    "pstate w = (initial_state [] example_idea)
          \<lparr>started_at := Some (isoformat (example_clock 0)), game_slug := example_slug,
           output_dir := example_od\<rparr>"
    by blast
  have e: "getenv_str Map.empty ''OUTPUT_DIR'' (ascii ''./output'') = ascii ''./output''"
    by (simp add: getenv_str_def)
  note t' = t [unfolded example_slug_eq example_od_eq e]
  from t' have a: "47 \<notin> set example_slug"
    by blast
  from t' have b: "parent (Path example_od) = Path (ascii ''./output'')"
    "path_name (Path example_od) = example_slug"
    by blast+
  show ?thesis
    using a b example_slug_eq by (simp add: w th)
qed

subsection \<open>Rejection at a checkpoint\<close>


lemma rejection_message_suffix: "\<exists>pre. rejection_message name F = pre @ F"
  by (simp add: rejection_message_def)

lemma errors_set_approval [simp]: "errors (set_approval n v st) = errors st"
  by (simp add: set_approval_def)

lemma approvals_append_error [simp]:
  "hitl_approvals (append_error m st) = hitl_approvals st"
  by (simp add: append_error_def)

lemma run_adversarial_review_same:
  "pstate (run_adversarial_review E stage w) = pstate w"
  by simp





subsection \<open>The manifest\<close>





subsection \<open>A run at the terminal in which every checkpoint is approved\<close>

lemma approving_fields [simp]:
  "unwritable approving_env = (\<lambda>p. False)" "environ approving_env = Map.empty"
  "clock approving_env = example_clock" "unicode_db (hitl approving_env) = ascii_only"
  "crew_of approving_env = (\<lambda>n st. none_crew)" "reviewer_available approving_env = False"
  "auto_mode approving_env = False" "HITL_ENABLED (hitl approving_env) = True"
  "confirm_ask (hitl approving_env) = (\<lambda>n. True)"
  "trend_radar_tool approving_env = (\<lambda>i. None)" "jurisdiction_tool approving_env = (\<lambda>i. None)"
  "knowledge_base_search approving_env = (\<lambda>i. None)" "patent_tool approving_env = (\<lambda>i. None)"
  "recon_search approving_env = (\<lambda>m. None)" "sound_design_full approving_env = (\<lambda>d. None)"
  "generate_brief approving_env = (\<lambda>d. None)" "prototype_tool approving_env = (\<lambda>st d. None)"
  "pdf_generator approving_env = (\<lambda>st d. PdfReturns [] [])"
  "pdf_block_edits approving_env =
     (\<lambda>st d. (market_research st, math_model st, compliance st, sound_design st))"
  "cost_summary approving_env =
     JObj [(ascii ''total_tokens'', JInt 0), (ascii ''estimated_cost_usd'', JInt 0)]"
  by (simp_all add: approving_env_def example_env_def example_hitl_def)

















end
